theory Spec2Isabelle
  imports Complex_Main
begin

section \<open>Common Python notions\<close>

text \<open>
  Exceptions raised by the modelled functions.  A function that can raise returns
  \<open>py_error + 'a\<close>, with \<open>Inl\<close> carrying the exception.  Messages are not modelled.
\<close>

datatype py_error =
    Exception
  | ValueError
  | TypeError
  | InvalidClassifierComparison
  | AssertionError
  | NoFurtherDataError
  | IndexError
  | ZeroDivisionError
  | AttributeError
  | OSError
  | IOError
  | HTTPError

text \<open>
  Python floats are modelled by exact rationals: the arithmetic of the source is kept
  expression by expression, rounding error of the binary representation is not modelled.
  Timestamps are integers (nanoseconds since the epoch, as pandas stores them).
\<close>

type_synonym timestamp = int

text \<open>\<open>math.copysign(x, y)\<close>: the magnitude of \<open>x\<close> with the sign of \<open>y\<close>; a zero
  \<open>y\<close> of the source (\<open>0\<close> or \<open>0.0\<close>) counts as positive.\<close>

definition copysign :: "rat \<Rightarrow> rat \<Rightarrow> rat" where
  "copysign x y = (if y < 0 then - \<bar>x\<bar> else \<bar>x\<bar>)"

section \<open>Positions and transactions\<close>

text \<open>\<open>catalyst.assets.Asset\<close> (a trading pair): only the attributes read by
  \<open>Position\<close> are kept.  Two assets are equal when they are the same asset.\<close>

record asset =
  symbol :: string
  base_currency :: string

text \<open>\<open>catalyst/finance/transaction.py\<close>, class \<open>Transaction\<close>.\<close>

record transaction =
  txn_asset :: asset
  txn_amount :: rat
  dt :: timestamp
  price :: rat
  order_id :: string
  commission :: "rat option"
  fee_currency :: "string option"
  is_quote_live :: bool

text \<open>\<open>catalyst/finance/performance/position.py\<close>, class \<open>Position\<close>.\<close>

record position =
  asset :: asset
  amount :: rat
  cost_basis :: rat
  last_sale_price :: rat
  last_sale_date :: "timestamp option"

text \<open>\<open>Position.update(txn)\<close>.  The method mutates the position; the model returns the
  updated position, or the exception raised for a transaction of another asset.\<close>

definition update :: "position \<Rightarrow> transaction \<Rightarrow> py_error + position" where
  "update self txn =
     (if asset self \<noteq> txn_asset txn then Inl Exception
      else
        let total_shares = amount self + txn_amount txn;
            self1 =
              (if total_shares = 0 then self\<lparr>cost_basis := 0\<rparr>
               else
                 let prev_direction = copysign 1 (amount self);
                     txn_direction = copysign 1 (txn_amount txn);
                     self2 =
                       (if prev_direction \<noteq> txn_direction then
                          (if \<bar>txn_amount txn\<bar> > \<bar>amount self\<bar>
                           then self\<lparr>cost_basis := price txn\<rparr>
                           else self)
                        else
                          let prev_cost = cost_basis self * amount self;
                              txn_cost = txn_amount txn * price txn;
                              total_cost = prev_cost + txn_cost
                          in self\<lparr>cost_basis := total_cost / total_shares\<rparr>)
                 in (case last_sale_date self2 of
                       None \<Rightarrow>
                         self2\<lparr>last_sale_price := price txn, last_sale_date := Some (dt txn)\<rparr>
                     | Some d \<Rightarrow>
                         if dt txn > d
                         then self2\<lparr>last_sale_price := price txn,
                                    last_sale_date := Some (dt txn)\<rparr>
                         else self2));
            total_shares' =
              (case commission txn of
                 None \<Rightarrow> total_shares
               | Some c \<Rightarrow>
                   if fee_currency txn = Some (base_currency (asset self))
                   then total_shares - c
                   else total_shares)
        in Inr (self1\<lparr>amount := total_shares'\<rparr>))"

section \<open>Example data\<close>

definition btc_usd :: asset where
  "btc_usd = \<lparr>symbol = ''btc_usd'', base_currency = ''btc''\<rparr>"

definition mk_position :: "rat \<Rightarrow> rat \<Rightarrow> position" where
  "mk_position a cb =
     \<lparr>asset = btc_usd, amount = a, cost_basis = cb,
      last_sale_price = 0, last_sale_date = None\<rparr>"

definition mk_txn :: "rat \<Rightarrow> rat \<Rightarrow> timestamp \<Rightarrow> transaction" where
  "mk_txn a p t =
     \<lparr>txn_asset = btc_usd, txn_amount = a, dt = t, price = p, order_id = ''o1'',
      commission = None, fee_currency = None, is_quote_live = False\<rparr>"

section \<open>Pipeline loader date shift\<close>

text \<open>\<open>dates.get_loc(key)\<close> on a calendar index: the position of \<open>key\<close>, or
  \<open>KeyError\<close> (here \<open>None\<close>) when the key is not a session.\<close>

fun get_loc :: "timestamp list \<Rightarrow> timestamp \<Rightarrow> nat option" where
  "get_loc [] key = None"
| "get_loc (d # ds) key = (if d = key then Some 0 else map_option Suc (get_loc ds key))"

text \<open>Indexing by an integer, \<open>xs[k]\<close>: a negative \<open>k\<close> counts from the end, and a
  position outside the sequence raises \<open>IndexError\<close>.\<close>

definition py_getitem :: "'a list \<Rightarrow> int \<Rightarrow> py_error + 'a" where
  "py_getitem xs k =
     (if 0 \<le> k \<and> k < int (length xs) then Inr (xs ! nat k)
      else if k < 0 \<and> - int (length xs) \<le> k then Inr (xs ! nat (int (length xs) + k))
      else Inl IndexError)"

text \<open>\<open>_shift_dates(dates, start_date, end_date, shift)\<close> of
  \<open>catalyst/pipeline/loaders/crypto_pricing_loader.py\<close>.\<close>

definition shift_dates ::
  "timestamp list \<Rightarrow> timestamp \<Rightarrow> timestamp \<Rightarrow> int \<Rightarrow> py_error + (timestamp \<times> timestamp)" where
  "shift_dates dates start_date end_date shift =
     (case get_loc dates start_date of
        None \<Rightarrow>
          (case py_getitem dates 0 of
             Inl e \<Rightarrow> Inl e
           | Inr d0 \<Rightarrow> if start_date < d0 then Inl NoFurtherDataError else Inl ValueError)
      | Some start \<Rightarrow>
          if int start < shift then Inl NoFurtherDataError
          else
            (case get_loc dates end_date of
               None \<Rightarrow>
                 (case py_getitem dates (- 1) of
                    Inl e \<Rightarrow> Inl e
                  | Inr dn \<Rightarrow> if end_date > dn then Inl NoFurtherDataError else Inl ValueError)
             | Some end \<Rightarrow>
                 (case py_getitem dates (int start - shift) of
                    Inl e \<Rightarrow> Inl e
                  | Inr a \<Rightarrow>
                      (case py_getitem dates (int end - shift) of
                         Inl e \<Rightarrow> Inl e
                       | Inr b \<Rightarrow> Inr (a, b)))))"


section \<open>Classifiers\<close>

text \<open>Python scalars that reach the classifier operators: integers, floats, strings and
  \<open>None\<close>.\<close>

datatype pyval = PyInt int | PyFloat rat | PyStr string | PyNone

text \<open>The numeric value of a scalar for which \<open>isinstance(v, Number)\<close> holds.\<close>

fun number_of :: "pyval \<Rightarrow> rat option" where
  "number_of (PyInt i) = Some (of_int i)"
| "number_of (PyFloat r) = Some r"
| "number_of (PyStr s) = None"
| "number_of PyNone = None"

definition is_Number :: "pyval \<Rightarrow> bool" where
  "is_Number v = (number_of v \<noteq> None)"

text \<open>Python's \<open>==\<close> on scalars: numbers compare by value across \<open>int\<close> and
  \<open>float\<close>, strings by content, \<open>None\<close> only equals \<open>None\<close>.\<close>

fun py_eq :: "pyval \<Rightarrow> pyval \<Rightarrow> bool" where
  "py_eq (PyStr s) (PyStr t) = (s = t)"
| "py_eq PyNone PyNone = True"
| "py_eq a b =
     (case (number_of a, number_of b) of
        (Some x, Some y) \<Rightarrow> x = y
      | _ \<Rightarrow> False)"

text \<open>\<open>int(x)\<close> on a number truncates toward zero.\<close>

definition py_int :: "rat \<Rightarrow> int" where
  "py_int x = (if 0 \<le> x then \<lfloor>x\<rfloor> else \<lceil>x\<rceil>)"

datatype dtype = int64_dtype | categorical_dtype | float64_dtype

text \<open>A \<open>Classifier\<close> term, reduced to the two attributes its operators read.\<close>

record classifier =
  dtype :: dtype
  missing_value :: pyval

text \<open>The expression handed to \<open>NumExprFilter.create\<close>, as a syntax tree: \<open>x_0\<close> is the
  bound classifier's output, the formatted values are literals.\<close>

datatype numterm = X0 | Lit pyval

datatype numexpr =
    NEq numterm numterm
  | NNe numterm numterm
  | NAnd numexpr numexpr

datatype array_op =
    operator_eq
  | operator_ne
  | vectorized_is_element
  | LabelArray_element_of

text \<open>The Filter terms built by the operators.\<close>

datatype filter =
    NumExprFilter numexpr classifier
  | ArrayPredicate classifier array_op "pyval list"

text \<open>\<open>Classifier.eq(other)\<close>.\<close>

definition Classifier_eq :: "classifier \<Rightarrow> pyval \<Rightarrow> py_error + filter" where
  "Classifier_eq self other =
     (if py_eq other (missing_value self) then Inl ValueError
      else if is_Number other \<noteq> (dtype self = int64_dtype)
        then Inl InvalidClassifierComparison
      else
        (case number_of other of
           Some x \<Rightarrow> Inr (NumExprFilter (NEq X0 (Lit (PyInt (py_int x)))) self)
         | None \<Rightarrow> Inr (ArrayPredicate self operator_eq [other])))"

text \<open>\<open>Classifier.__ne__(other)\<close>.\<close>

definition Classifier_ne :: "classifier \<Rightarrow> pyval \<Rightarrow> py_error + filter" where
  "Classifier_ne self other =
     (if is_Number other \<noteq> (dtype self = int64_dtype)
        then Inl InvalidClassifierComparison
      else
        (case number_of other of
           Some x \<Rightarrow>
             Inr (NumExprFilter
                    (NAnd (NNe X0 (Lit (PyInt (py_int x))))
                          (NNe X0 (Lit (missing_value self))))
                    self)
         | None \<Rightarrow> Inr (ArrayPredicate self operator_ne [other])))"

text \<open>The \<open>choices\<close> argument of \<open>element_of\<close>: either a collection of scalars, or an
  object on which \<open>frozenset(choices)\<close> raises (not iterable, or holding an unhashable
  element).\<close>

datatype choices_arg = Scalars "pyval list" | NotHashable

fun frozenset :: "choices_arg \<Rightarrow> py_error + pyval list" where
  "frozenset (Scalars cs) = Inr cs"
| "frozenset NotHashable = Inl TypeError"

text \<open>\<open>v in choices\<close> for a frozenset of scalars.\<close>

definition py_in :: "pyval \<Rightarrow> pyval list \<Rightarrow> bool" where
  "py_in v cs = list_ex (py_eq v) cs"

fun is_int :: "pyval \<Rightarrow> bool" where
  "is_int (PyInt i) = True"
| "is_int v = False"

fun is_str :: "pyval \<Rightarrow> bool" where
  "is_str (PyStr s) = True"
| "is_str v = False"

definition only_contains :: "(pyval \<Rightarrow> bool) \<Rightarrow> pyval list \<Rightarrow> bool" where
  "only_contains ty vs = list_all ty vs"

text \<open>\<open>sorted(choices)\<close> on the frozenset, under Python 3: numbers are ordered among
  themselves and strings among themselves; ordering a number against a string, or
  \<open>None\<close> against anything, raises \<open>TypeError\<close>.  A set with a single value is
  sorted without a comparison; the list of the model may repeat that value.\<close>

definition py3_sortable :: "pyval list \<Rightarrow> bool" where
  "py3_sortable cs =
     (list_all is_Number cs \<or> list_all is_str cs
      \<or> list_all (\<lambda>a. list_all (py_eq a) cs) cs)"

text \<open>\<open>Classifier.element_of(choices)\<close>.  The message of the \<open>ValueError\<close> is
  formatted before the exception is raised, and its arguments include
  \<open>sorted(choices)\<close>: when that call raises, its \<open>TypeError\<close> is what leaves the
  method.\<close>

definition Classifier_element_of :: "classifier \<Rightarrow> choices_arg \<Rightarrow> py_error + filter" where
  "Classifier_element_of self choices =
     (case frozenset choices of
        Inl e \<Rightarrow> Inl TypeError
      | Inr cs \<Rightarrow>
          if py_in (missing_value self) cs then
            (if py3_sortable cs then Inl ValueError else Inl TypeError)
          else if dtype self = int64_dtype then
            (if only_contains is_int cs
             then Inr (ArrayPredicate self vectorized_is_element cs)
             else Inl TypeError)
          else if dtype self = categorical_dtype then
            (if only_contains is_str cs
             then Inr (ArrayPredicate self LabelArray_element_of cs)
             else Inl TypeError)
          else Inl AssertionError)"

text \<open>
  Modelled from the spec: the value of a Filter at one cell.  \<open>NumExprFilter\<close>,
  \<open>ArrayPredicate\<close> (\<open>catalyst.pipeline.filters\<close>) and \<open>LabelArray\<close>
  (\<open>catalyst.lib.labelarray\<close>) are not among the sources.  An expression filter
  evaluates its expression with \<open>x_0\<close> bound to the cell.  An array predicate applies its
  operator to the cell and the operator's arguments; on a label array the comparisons
  exclude the cells that carry the missing value, as the spec says of \<open>__ne__\<close> and as
  \<open>_test_string_not_equal\<close> expects.  The cell is taken inside the mask.
\<close>

fun eval_numterm :: "pyval \<Rightarrow> numterm \<Rightarrow> pyval" where
  "eval_numterm x X0 = x"
| "eval_numterm x (Lit v) = v"

fun eval_numexpr :: "pyval \<Rightarrow> numexpr \<Rightarrow> bool" where
  "eval_numexpr x (NEq a b) = py_eq (eval_numterm x a) (eval_numterm x b)"
| "eval_numexpr x (NNe a b) = (\<not> py_eq (eval_numterm x a) (eval_numterm x b))"
| "eval_numexpr x (NAnd p q) = (eval_numexpr x p \<and> eval_numexpr x q)"

fun eval_filter :: "filter \<Rightarrow> pyval \<Rightarrow> bool" where
  "eval_filter (NumExprFilter e c) x = eval_numexpr x e"
| "eval_filter (ArrayPredicate c operator_eq args) x =
     (list_all (py_eq x) args \<and> \<not> py_eq x (missing_value c))"
| "eval_filter (ArrayPredicate c operator_ne args) x =
     (list_all (\<lambda>a. \<not> py_eq x a) args \<and> \<not> py_eq x (missing_value c))"
| "eval_filter (ArrayPredicate c vectorized_is_element args) x = py_in x args"
| "eval_filter (ArrayPredicate c LabelArray_element_of args) x =
     (py_in x args \<and> \<not> py_eq x (missing_value c))"

definition int_classifier :: classifier where
  "int_classifier = \<lparr>dtype = int64_dtype, missing_value = PyInt (- 1)\<rparr>"

definition label_classifier :: classifier where
  "label_classifier = \<lparr>dtype = categorical_dtype, missing_value = PyNone\<rparr>"

definition str_classifier :: classifier where
  "str_classifier = \<lparr>dtype = categorical_dtype, missing_value = PyStr []\<rparr>"

section \<open>Benchmark and treasury data cache\<close>

text \<open>A data frame with a \<open>DatetimeIndex\<close>: its rows in order, each an index entry and a
  value.  An index entry that \<open>pd.to_datetime(..., errors='coerce')\<close> could not parse is
  \<open>NaT\<close>, here \<open>None\<close>; every comparison with \<open>NaT\<close> is false.\<close>

type_synonym frame = "(timestamp option \<times> rat) list"

fun ts_le :: "timestamp option \<Rightarrow> timestamp \<Rightarrow> bool" where
  "ts_le None b = False"
| "ts_le (Some a) b = (a \<le> b)"

fun ts_ge :: "timestamp option \<Rightarrow> timestamp \<Rightarrow> bool" where
  "ts_ge None b = False"
| "ts_ge (Some a) b = (a \<ge> b)"

text \<open>\<open>has_data_for_dates(series_or_df, first_date, last_date)\<close>.  The argument may be
  \<open>None\<close>, whose attribute \<open>index\<close> does not exist; \<open>dts[[0, -1]]\<close> raises on an empty
  index.  The frames of the model always carry a \<open>DatetimeIndex\<close>, so the \<open>TypeError\<close>
  branch has no counterpart.\<close>

fun has_data_for_dates :: "frame option \<Rightarrow> timestamp \<Rightarrow> timestamp \<Rightarrow> py_error + bool" where
  "has_data_for_dates None first_date last_date = Inl AttributeError"
| "has_data_for_dates (Some []) first_date last_date = Inl IndexError"
| "has_data_for_dates (Some (r # rs)) first_date last_date =
     Inr (ts_le (fst (hd (r # rs))) first_date \<and> ts_ge (fst (last (r # rs))) last_date)"

definition ONE_HOUR :: int where
  "ONE_HOUR = 3600 * 1000000000"

datatype log_entry = Info string | Warn string | LogException string

text \<open>The file at the cache path, as the functions observe it: the outcome of
  \<open>pd.DataFrame.from_csv(path)\<close> with its index parsed, and the outcome of
  \<open>last_modified_time(path)\<close>.\<close>

record cache_file =
  from_csv :: "py_error + frame"
  last_modified_time :: "py_error + timestamp"

text \<open>The body of the \<open>try\<close> block of \<open>_load_cached_data\<close>: \<open>Inr (Some data)\<close> for a
  \<open>return data\<close>, \<open>Inr None\<close> when the block falls through, \<open>Inl\<close> for an exception raised
  inside it.\<close>

definition load_cached_try ::
  "cache_file \<Rightarrow> timestamp \<Rightarrow> timestamp \<Rightarrow> timestamp
     \<Rightarrow> py_error + (frame option \<times> log_entry list)" where
  "load_cached_try f first_date last_date now =
     (case from_csv f of
        Inl e \<Rightarrow> Inl e
      | Inr data \<Rightarrow>
          if data = [] then Inl ValueError
          else
            (case has_data_for_dates (Some data) first_date last_date of
               Inl e \<Rightarrow> Inl e
             | Inr True \<Rightarrow> Inr (Some data, [])
             | Inr False \<Rightarrow>
                 (case last_modified_time f of
                    Inl e \<Rightarrow> Inl e
                  | Inr last_download_time \<Rightarrow>
                      if now - last_download_time \<le> ONE_HOUR
                      then Inr (Some data, [Warn ''Refusing to download new data''])
                      else Inr (None, []))))"

text \<open>\<open>except (OSError, IOError)\<close>: \<open>HTTPError\<close> derives from \<open>URLError\<close>, itself an
  \<open>IOError\<close> (an \<open>OSError\<close> under Python 3), so the clause catches it too.\<close>

definition is_OSError_or_IOError :: "py_error \<Rightarrow> bool" where
  "is_OSError_or_IOError e = (e = OSError \<or> e = IOError \<or> e = HTTPError)"

text \<open>\<open>_load_cached_data(filename, first_date, last_date, now, resource_name, environ)\<close>.
  The first argument is the file at the cache path, \<open>None\<close> when \<open>os.path.exists(path)\<close>
  is false.  The result pairs the returned value (\<open>None\<close> for a cache miss) or the
  exception that escapes with the log lines written.\<close>

definition load_cached_data ::
  "cache_file option \<Rightarrow> timestamp \<Rightarrow> timestamp \<Rightarrow> timestamp
     \<Rightarrow> (py_error + frame option) \<times> log_entry list" where
  "load_cached_data file first_date last_date now =
     (case file of
        None \<Rightarrow> (Inr None, [Info ''Cache does not have data''])
      | Some f \<Rightarrow>
          (case load_cached_try f first_date last_date now of
             Inl e \<Rightarrow>
               if is_OSError_or_IOError e \<or> e = ValueError
               then (Inr None, [Info ''Loading data failed'', Info ''Cache does not have data''])
               else (Inl e, [])
           | Inr (Some data, logs) \<Rightarrow> (Inr (Some data), logs)
           | Inr (None, logs) \<Rightarrow> (Inr None, logs @ [Info ''Cache does not have data''])))"

text \<open>The download step shared by the two \<open>ensure\<close> functions: the fetch assigns
  \<open>data\<close>, then \<open>data.to_csv\<close> writes the cache.  The outcome of the fetch and of the write
  (\<open>None\<close> for success) are given; the result is the value of \<open>data\<close> after the block
  and the exception that left it, if any.\<close>

definition download_and_cache ::
  "py_error + frame \<Rightarrow> py_error option \<Rightarrow> frame option \<times> py_error option" where
  "download_and_cache fetch to_csv =
     (case fetch of
        Inl e \<Rightarrow> (None, Some e)
      | Inr d \<Rightarrow> (Some d, to_csv))"

text \<open>\<open>ensure_benchmark_data\<close>: the \<open>except\<close> clause logs and re-raises.\<close>

definition ensure_benchmark_data ::
  "cache_file option \<Rightarrow> py_error + frame \<Rightarrow> py_error option
     \<Rightarrow> timestamp \<Rightarrow> timestamp \<Rightarrow> timestamp
     \<Rightarrow> (py_error + frame option) \<times> log_entry list" where
  "ensure_benchmark_data file fetch to_csv first_date last_date now =
     (case load_cached_data file first_date last_date now of
        (Inl e, logs) \<Rightarrow> (Inl e, logs)
      | (Inr (Some data), logs) \<Rightarrow> (Inr (Some data), logs)
      | (Inr None, logs) \<Rightarrow>
          let logs1 = logs @ [Info ''Downloading benchmark data'']
          in (case download_and_cache fetch to_csv of
                (data, Some e) \<Rightarrow>
                  if e \<in> {OSError, IOError, HTTPError}
                  then (Inl e, logs1 @ [LogException ''Failed to cache the new benchmark returns''])
                  else (Inl e, logs1)
              | (data, None) \<Rightarrow>
                  (case has_data_for_dates data first_date last_date of
                     Inl e \<Rightarrow> (Inl e, logs1)
                   | Inr ok \<Rightarrow>
                       (Inr data,
                        if ok then logs1
                        else logs1 @ [Warn ''Still do not have expected data after redownload!'']))))"

text \<open>\<open>ensure_treasury_data\<close>: the \<open>except\<close> clause logs and does not re-raise, and the
  function goes on with \<open>data\<close> as the block left it.  \<open>earliest\<close> is
  \<open>loader_module.earliest_possible_date()\<close>.\<close>

definition ensure_treasury_data ::
  "cache_file option \<Rightarrow> py_error + frame \<Rightarrow> py_error option \<Rightarrow> timestamp
     \<Rightarrow> timestamp \<Rightarrow> timestamp \<Rightarrow> timestamp
     \<Rightarrow> (py_error + frame option) \<times> log_entry list" where
  "ensure_treasury_data file fetch to_csv earliest first_date0 last_date now =
     (let first_date = max first_date0 earliest
      in case load_cached_data file first_date last_date now of
           (Inl e, logs) \<Rightarrow> (Inl e, logs)
         | (Inr (Some data), logs) \<Rightarrow> (Inr (Some data), logs)
         | (Inr None, logs) \<Rightarrow>
             let logs1 = logs @ [Info ''Downloading treasury data''];
                 (data, raised) = download_and_cache fetch to_csv;
                 escapes = (case raised of
                              None \<Rightarrow> None
                            | Some e \<Rightarrow> if e \<in> {OSError, IOError, HTTPError} then None else Some e);
                 logs2 = (case raised of
                            None \<Rightarrow> logs1
                          | Some e \<Rightarrow>
                              if e \<in> {OSError, IOError, HTTPError}
                              then logs1 @ [LogException ''failed to cache treasury data'']
                              else logs1)
             in (case escapes of
                   Some e \<Rightarrow> (Inl e, logs2)
                 | None \<Rightarrow>
                     (case has_data_for_dates data first_date last_date of
                        Inl e \<Rightarrow> (Inl e, logs2)
                      | Inr ok \<Rightarrow>
                          (Inr data,
                           if ok then logs2
                           else logs2 @ [Warn ''Still do not have expected data after redownload!'']))))"

definition day :: int where "day = 24 * ONE_HOUR"

definition sample_frame :: frame where
  "sample_frame = [(Some (10 * day), 1 / 100), (Some (11 * day), - 1 / 50), (Some (12 * day), 0)]"

definition sample_file :: cache_file where
  "sample_file = \<lparr>from_csv = Inr sample_frame, last_modified_time = Inr (13 * day)\<rparr>"

section \<open>Position.update\<close>

lemma update_same_asset_returns:
  "asset self = txn_asset txn \<Longrightarrow> \<exists>p. update self txn = Inr p"
  by (simp add: update_def Let_def)

text \<open>
  Claim C1, as the source has it.  For a transaction of the position's asset, with
  \<open>total = amount + txn.amount\<close>: a zero total resets the cost basis to 0; when the
  directions differ (\<open>copysign\<close>, zero counting as positive) and the transaction is larger
  in magnitude than the position, the cost basis becomes the transaction price; when the
  directions differ and the transaction is not larger (a partial close), the cost basis
  is left unchanged; when the directions agree, the cost basis is the size-weighted
  average \<open>(cost_basis * amount + price * txn.amount) / total\<close>.  Starting from amount 0,
  a buy of 10 at 100 followed by a sell of 15 at 120 leaves cost basis 120 and amount -5.
\<close>

theorem update_cost_basis:
  "(asset self = txn_asset txn \<longrightarrow>
     (\<exists>p. update self txn = Inr p \<and>
       (amount self + txn_amount txn = 0 \<longrightarrow> cost_basis p = 0) \<and>
       (amount self + txn_amount txn \<noteq> 0
          \<and> copysign 1 (amount self) \<noteq> copysign 1 (txn_amount txn)
          \<and> \<bar>txn_amount txn\<bar> > \<bar>amount self\<bar> \<longrightarrow> cost_basis p = price txn) \<and>
       (amount self + txn_amount txn \<noteq> 0
          \<and> copysign 1 (amount self) \<noteq> copysign 1 (txn_amount txn)
          \<and> \<not> \<bar>txn_amount txn\<bar> > \<bar>amount self\<bar> \<longrightarrow> cost_basis p = cost_basis self) \<and>
       (amount self + txn_amount txn \<noteq> 0
          \<and> copysign 1 (amount self) = copysign 1 (txn_amount txn)
          \<longrightarrow> cost_basis p =
                (cost_basis self * amount self + price txn * txn_amount txn)
                  / (amount self + txn_amount txn))))
   \<and> (\<exists>p1 p2. update (mk_position 0 0) (mk_txn 10 100 1) = Inr p1
          \<and> update p1 (mk_txn (- 15) 120 2) = Inr p2
          \<and> cost_basis p2 = 120 \<and> amount p2 = - 5)"
proof -
  have general: "asset self = txn_asset txn \<longrightarrow>
     (\<exists>p. update self txn = Inr p \<and>
       (amount self + txn_amount txn = 0 \<longrightarrow> cost_basis p = 0) \<and>
       (amount self + txn_amount txn \<noteq> 0
          \<and> copysign 1 (amount self) \<noteq> copysign 1 (txn_amount txn)
          \<and> \<bar>txn_amount txn\<bar> > \<bar>amount self\<bar> \<longrightarrow> cost_basis p = price txn) \<and>
       (amount self + txn_amount txn \<noteq> 0
          \<and> copysign 1 (amount self) \<noteq> copysign 1 (txn_amount txn)
          \<and> \<not> \<bar>txn_amount txn\<bar> > \<bar>amount self\<bar> \<longrightarrow> cost_basis p = cost_basis self) \<and>
       (amount self + txn_amount txn \<noteq> 0
          \<and> copysign 1 (amount self) = copysign 1 (txn_amount txn)
          \<longrightarrow> cost_basis p =
                (cost_basis self * amount self + price txn * txn_amount txn)
                  / (amount self + txn_amount txn)))"
    by (simp add: update_def Let_def mult.commute split: option.splits)
  have example: "\<exists>p1 p2. update (mk_position 0 0) (mk_txn 10 100 1) = Inr p1
          \<and> update p1 (mk_txn (- 15) 120 2) = Inr p2
          \<and> cost_basis p2 = 120 \<and> amount p2 = - 5"
    by (simp add: update_def mk_position_def mk_txn_def copysign_def Let_def)
  from general example show ?thesis by blast
qed

theorem update_cost_basis_witness:
  "asset (mk_position 10 100) = txn_asset (mk_txn (- 15) 120 2)
   \<and> amount (mk_position 10 100) + txn_amount (mk_txn (- 15) 120 2) \<noteq> 0
   \<and> copysign 1 (amount (mk_position 10 100)) \<noteq> copysign 1 (txn_amount (mk_txn (- 15) 120 2))
   \<and> \<bar>txn_amount (mk_txn (- 15) 120 2)\<bar> > \<bar>amount (mk_position 10 100)\<bar>
   \<and> (\<exists>p. update (mk_position 10 100) (mk_txn (- 15) 120 2) = Inr p \<and> cost_basis p = 120)"
  using update_cost_basis [of "mk_position 10 100" "mk_txn (- 15) 120 2"]
  by (simp add: mk_position_def mk_txn_def copysign_def)

text \<open>
  Claim C1 as worded fails on a partial close: a long position of 10 with cost basis 100
  and a sell of 5 at 120.  The total is 5, the directions differ, the transaction is not
  larger than the position, so the claim's "otherwise" case asks for the weighted average
  \<open>(100 * 10 + 120 * (-5)) / 5 = 80\<close>; the source leaves the cost basis at 100.
\<close>

theorem update_partial_close_counterexample:
  "amount (mk_position 10 100) + txn_amount (mk_txn (- 5) 120 2) \<noteq> 0
   \<and> \<not> \<bar>txn_amount (mk_txn (- 5) 120 2)\<bar> > \<bar>amount (mk_position 10 100)\<bar>
   \<and> update (mk_position 10 100) (mk_txn (- 5) 120 2)
       = Inr \<lparr>asset = btc_usd, amount = 5, cost_basis = 100,
              last_sale_price = 120, last_sale_date = Some 2\<rparr>
   \<and> (cost_basis (mk_position 10 100) * amount (mk_position 10 100)
        + price (mk_txn (- 5) 120 2) * txn_amount (mk_txn (- 5) 120 2))
       / (amount (mk_position 10 100) + txn_amount (mk_txn (- 5) 120 2)) = 80
   \<and> (100::rat) \<noteq> 80"
  by (simp add: update_def mk_position_def mk_txn_def copysign_def Let_def)

text \<open>
  Claim C9.  A transaction of the position's asset that brings the total to exactly zero
  leaves \<open>last_sale_price\<close> and \<open>last_sale_date\<close> as they were, whatever the transaction's
  timestamp, and resets the cost basis to 0.
\<close>

theorem update_close_keeps_last_sale:
  assumes "asset self = txn_asset txn" and "amount self + txn_amount txn = 0"
  shows "\<exists>p. update self txn = Inr p \<and> last_sale_price p = last_sale_price self
           \<and> last_sale_date p = last_sale_date self \<and> cost_basis p = 0"
  using assms by (simp add: update_def Let_def)

theorem update_close_keeps_last_sale_witness:
  "asset ((mk_position 10 100)\<lparr>last_sale_price := 99, last_sale_date := Some 1\<rparr>)
     = txn_asset (mk_txn (- 10) 120 2)
   \<and> amount ((mk_position 10 100)\<lparr>last_sale_price := 99, last_sale_date := Some 1\<rparr>)
       + txn_amount (mk_txn (- 10) 120 2) = 0
   \<and> (1::int) < dt (mk_txn (- 10) 120 2)
   \<and> (\<exists>p. update ((mk_position 10 100)\<lparr>last_sale_price := 99, last_sale_date := Some 1\<rparr>)
              (mk_txn (- 10) 120 2) = Inr p
          \<and> last_sale_price p = 99 \<and> last_sale_date p = Some 1 \<and> cost_basis p = 0)"
  using update_close_keeps_last_sale
          [of "(mk_position 10 100)\<lparr>last_sale_price := 99, last_sale_date := Some 1\<rparr>"
              "mk_txn (- 10) 120 2"]
  by (simp add: mk_position_def mk_txn_def)

text \<open>
  Claim C10.  When the transaction carries a commission and its fee currency is the
  asset's base currency, the final amount is \<open>(amount + txn.amount) - commission\<close>; this
  also holds when the total is zero, where the position ends with amount
  \<open>- commission\<close> and cost basis 0.
\<close>

theorem update_commission_deducted:
  assumes "asset self = txn_asset txn" and "commission txn = Some c"
    and "fee_currency txn = Some (base_currency (asset self))"
  shows "\<exists>p. update self txn = Inr p
           \<and> amount p = (amount self + txn_amount txn) - c
           \<and> (amount self + txn_amount txn = 0 \<longrightarrow> amount p = - c \<and> cost_basis p = 0)"
  using assms by (simp add: update_def Let_def split: option.splits)

theorem update_commission_deducted_witness:
  "asset (mk_position 10 100)
     = txn_asset ((mk_txn (- 10) 120 2)\<lparr>commission := Some (1 / 4), fee_currency := Some ''btc''\<rparr>)
   \<and> commission ((mk_txn (- 10) 120 2)\<lparr>commission := Some (1 / 4), fee_currency := Some ''btc''\<rparr>)
       = Some (1 / 4)
   \<and> fee_currency ((mk_txn (- 10) 120 2)\<lparr>commission := Some (1 / 4), fee_currency := Some ''btc''\<rparr>)
       = Some (base_currency (asset (mk_position 10 100)))
   \<and> amount (mk_position 10 100) + txn_amount (mk_txn (- 10) 120 2) = 0
   \<and> (\<exists>p. update (mk_position 10 100)
              ((mk_txn (- 10) 120 2)\<lparr>commission := Some (1 / 4), fee_currency := Some ''btc''\<rparr>)
            = Inr p
          \<and> amount p = - (1 / 4) \<and> cost_basis p = 0)"
  using update_commission_deducted
          [of "mk_position 10 100"
              "(mk_txn (- 10) 120 2)\<lparr>commission := Some (1 / 4), fee_currency := Some ''btc''\<rparr>"
              "1 / 4"]
  by (simp add: mk_position_def mk_txn_def btc_usd_def)

section \<open>The date shift of the pricing loader\<close>

lemma get_loc_absent: "key \<notin> set dates \<Longrightarrow> get_loc dates key = None"
  by (induction dates) auto

lemma get_loc_nth:
  "distinct dates \<Longrightarrow> i < length dates \<Longrightarrow> get_loc dates (dates ! i) = Some i"
proof (induction dates arbitrary: i)
  case Nil
  then show ?case by simp
next
  case (Cons d ds)
  show ?case
  proof (cases i)
    case 0
    then show ?thesis by simp
  next
    case (Suc k)
    with Cons.prems have "k < length ds" "distinct ds" "ds ! k \<noteq> d" by auto
    with Cons.IH Suc show ?thesis by auto
  qed
qed

lemma calendar_distinct: "sorted_wrt (<) (dates :: timestamp list) \<Longrightarrow> distinct dates"
  by (induction dates) auto

lemma before_first_absent:
  "sorted_wrt (<) (dates :: timestamp list) \<Longrightarrow> dates \<noteq> [] \<Longrightarrow> key < hd dates \<Longrightarrow> key \<notin> set dates"
  by (cases dates) auto

lemma le_last_calendar:
  "sorted_wrt (<) (dates :: timestamp list) \<Longrightarrow> key \<in> set dates \<Longrightarrow> key \<le> last dates"
proof (induction dates)
  case Nil
  then show ?case by simp
next
  case (Cons d ds)
  show ?case
  proof (cases "ds = []")
    case True
    with Cons.prems show ?thesis by simp
  next
    case False
    then have "last ds \<in> set ds" by simp
    with Cons.prems have dl: "d < last ds" by simp
    show ?thesis
    proof (cases "key = d")
      case True
      with dl False show ?thesis by simp
    next
      case neq: False
      with Cons.prems have "key \<in> set ds" "sorted_wrt (<) ds" by auto
      with Cons.IH False show ?thesis by simp
    qed
  qed
qed

lemma after_last_absent:
  "sorted_wrt (<) (dates :: timestamp list) \<Longrightarrow> last dates < key \<Longrightarrow> key \<notin> set dates"
  using le_last_calendar by fastforce

lemma py_getitem_first: "dates \<noteq> [] \<Longrightarrow> py_getitem dates 0 = Inr (hd dates)"
  by (cases dates) (simp_all add: py_getitem_def)

lemma py_getitem_last: "dates \<noteq> [] \<Longrightarrow> py_getitem dates (- 1) = Inr (last dates)"
  by (simp add: py_getitem_def last_conv_nth nat_diff_distrib' Suc_leI) 

lemma py_getitem_back:
  "i < length dates \<Longrightarrow> 0 \<le> shift \<Longrightarrow> shift \<le> int i \<Longrightarrow>
     py_getitem dates (int i - shift) = Inr (dates ! (i - nat shift))"
  by (simp add: py_getitem_def nat_diff_distrib')

text \<open>
  Claim C2, as the source has it.  On a strictly increasing, non-empty calendar
  \<open>[D0..Dn]\<close> and a shift \<open>\<ge> 0\<close>, the checks are made in this order.  A start that
  is not a session raises \<open>NoFurtherDataError\<close> when it precedes \<open>D0\<close> and the plain
  \<open>ValueError\<close> otherwise.  A start \<open>Di\<close> with \<open>i < shift\<close> raises
  \<open>NoFurtherDataError\<close>.  With \<open>i \<ge> shift\<close>, an end that is not a session raises
  \<open>NoFurtherDataError\<close> when it is after \<open>Dn\<close> and \<open>ValueError\<close> otherwise.  With
  start \<open>Di\<close>, end \<open>Dj\<close>, \<open>i \<ge> shift\<close> and \<open>j \<ge> shift\<close> the result is
  \<open>(D(i-shift), D(j-shift))\<close>.
\<close>

theorem shift_dates_spec:
  assumes cal: "sorted_wrt (<) dates" and ne: "dates \<noteq> []" and sh: "0 \<le> shift"
  shows
   "(\<forall>i j. i < length dates \<and> j < length dates \<and> shift \<le> int i \<and> shift \<le> int j \<longrightarrow>
        shift_dates dates (dates ! i) (dates ! j) shift
          = Inr (dates ! (i - nat shift), dates ! (j - nat shift)))
    \<and> (\<forall>s e. s < hd dates \<longrightarrow> shift_dates dates s e shift = Inl NoFurtherDataError)
    \<and> (\<forall>i e. i < length dates \<and> int i < shift \<longrightarrow>
          shift_dates dates (dates ! i) e shift = Inl NoFurtherDataError)
    \<and> (\<forall>i e. i < length dates \<and> shift \<le> int i \<and> last dates < e \<longrightarrow>
          shift_dates dates (dates ! i) e shift = Inl NoFurtherDataError)
    \<and> (\<forall>s e. s \<notin> set dates \<and> hd dates \<le> s \<longrightarrow>
          shift_dates dates s e shift = Inl ValueError)
    \<and> (\<forall>i e. i < length dates \<and> shift \<le> int i \<and> e \<notin> set dates \<and> e \<le> last dates \<longrightarrow>
          shift_dates dates (dates ! i) e shift = Inl ValueError)"
proof -
  have dist: "distinct dates" using cal by (rule calendar_distinct)
  have loc: "\<And>i. i < length dates \<Longrightarrow> get_loc dates (dates ! i) = Some i"
    using dist by (rule get_loc_nth)
  have c1: "\<forall>i j. i < length dates \<and> j < length dates \<and> shift \<le> int i \<and> shift \<le> int j \<longrightarrow>
        shift_dates dates (dates ! i) (dates ! j) shift
          = Inr (dates ! (i - nat shift), dates ! (j - nat shift))"
    using sh by (simp add: shift_dates_def loc py_getitem_back)
  have c2: "\<forall>s e. s < hd dates \<longrightarrow> shift_dates dates s e shift = Inl NoFurtherDataError"
    using before_first_absent [OF cal ne]
    by (simp add: shift_dates_def get_loc_absent py_getitem_first [OF ne])
  have c3: "\<forall>i e. i < length dates \<and> int i < shift \<longrightarrow>
          shift_dates dates (dates ! i) e shift = Inl NoFurtherDataError"
    by (simp add: shift_dates_def loc)
  have c4: "\<forall>i e. i < length dates \<and> shift \<le> int i \<and> last dates < e \<longrightarrow>
          shift_dates dates (dates ! i) e shift = Inl NoFurtherDataError"
    using after_last_absent [OF cal]
    by (simp add: shift_dates_def loc get_loc_absent py_getitem_last [OF ne])
  have c5: "\<forall>s e. s \<notin> set dates \<and> hd dates \<le> s \<longrightarrow>
          shift_dates dates s e shift = Inl ValueError"
    by (simp add: shift_dates_def get_loc_absent py_getitem_first [OF ne])
  have c6: "\<forall>i e. i < length dates \<and> shift \<le> int i \<and> e \<notin> set dates \<and> e \<le> last dates \<longrightarrow>
          shift_dates dates (dates ! i) e shift = Inl ValueError"
    by (simp add: shift_dates_def loc get_loc_absent py_getitem_last [OF ne])
  from c1 c2 c3 c4 c5 c6 show ?thesis by blast
qed

text \<open>
  Claim C2 as worded fails in two places.  With start \<open>D1\<close>, end \<open>D0\<close> and shift 1
  the claim's conditions \<open>i \<ge> shift\<close> and \<open>j \<le> n\<close> hold, yet there is no
  \<open>D(j-1)\<close>: the source evaluates \<open>dates[-1]\<close> and returns the last session.  With a
  start inside the calendar's bounds that is not a session and an end after \<open>Dn\<close>, the
  claim asks both for \<open>NoFurtherDataError\<close> and for the lookup error; the source checks
  the start first and raises \<open>ValueError\<close>.
\<close>

theorem shift_dates_counterexample:
  "get_loc [10, 20, 30] 20 = Some 1 \<and> get_loc [10, 20, 30] 10 = Some 0
   \<and> shift_dates [10, 20, 30] 20 10 1 = Inr (10, 30)
   \<and> get_loc [10, 20, 30] 30 = Some 2
   \<and> get_loc [10, 20, 30] 15 = None \<and> (10::int) < 15 \<and> (15::int) < 30 \<and> (30::int) < 40
   \<and> shift_dates [10, 20, 30] 15 40 1 = Inl ValueError"
  by (simp add: shift_dates_def py_getitem_def)

theorem shift_dates_spec_witness:
  "sorted_wrt (<) [10, 20, 30 :: int] \<and> [10, 20, 30 :: int] \<noteq> [] \<and> (0::int) \<le> 1
   \<and> shift_dates [10, 20, 30] 20 30 1 = Inr (10, 20)
   \<and> shift_dates [10, 20, 30] 5 30 1 = Inl NoFurtherDataError
   \<and> shift_dates [10, 20, 30] 10 30 1 = Inl NoFurtherDataError
   \<and> shift_dates [10, 20, 30] 20 40 1 = Inl NoFurtherDataError
   \<and> shift_dates [10, 20, 30] 15 30 1 = Inl ValueError
   \<and> shift_dates [10, 20, 30] 20 25 1 = Inl ValueError"
proof -
  have h: "sorted_wrt (<) [10, 20, 30 :: int]" "[10, 20, 30 :: int] \<noteq> []" "(0::int) \<le> 1"
    by simp_all
  note spec = shift_dates_spec [OF h]
  from spec have a: "shift_dates [10, 20, 30] ([10, 20, 30] ! 1) ([10, 20, 30] ! 2) 1
      = Inr ([10, 20, 30] ! (1 - nat 1), [10, 20, 30] ! (2 - nat 1))"
    by (elim conjE allE [where x = "1::nat"] allE [where x = "2::nat"]) simp
  show ?thesis using h a spec by (simp add: shift_dates_def py_getitem_def)
qed

section \<open>Classifier comparisons\<close>

lemma py_eq_sym: "py_eq a b = py_eq b a"
  by (cases a; cases b) auto


lemma py_in_member: "m \<in> set cs \<Longrightarrow> py_eq v m \<Longrightarrow> py_in v cs"
  by (auto simp: py_in_def list_ex_iff)

lemma Classifier_eq_missing_value:
  "py_eq m (missing_value c) \<Longrightarrow> Classifier_eq c m = Inl ValueError"
  by (simp add: Classifier_eq_def)

lemma Classifier_element_of_missing_value:
  assumes "py_eq m (missing_value c)" and "m \<in> set cs"
  shows "Classifier_element_of c (Scalars cs)
           = (if py3_sortable cs then Inl ValueError else Inl TypeError)"
  using assms py_in_member [of m cs "missing_value c"]
  by (simp add: Classifier_element_of_def py_eq_sym)

lemma Classifier_element_of_missing_value_strings:
  "Classifier_element_of str_classifier (Scalars [PyStr [], PyStr ''random other value''])
     = Inl ValueError"
  by (simp add: Classifier_element_of_def str_classifier_def py_in_def py3_sortable_def)

text \<open>
  Claim C3.  \<open>c.eq(m)\<close> with \<open>m == c.missing_value\<close> raises the vacuous-comparison error
  (a \<open>ValueError\<close>), as the claim says.  \<open>c.element_of(choices)\<close> with the missing value
  among the choices does not always: on a categorical classifier whose missing value is
  \<open>None\<close>, the choices \<open>[None, 'a']\<close> hold the missing value, the method starts to raise
  the \<open>ValueError\<close>, and \<open>sorted(choices)\<close> in its message raises \<open>TypeError\<close> under
  Python 3.  No Filter is built in either call.
\<close>

theorem element_of_missing_value_mixed_choices:
  "py_eq PyNone (missing_value label_classifier)
   \<and> PyNone \<in> set [PyNone, PyStr ''a'']
   \<and> Classifier_eq label_classifier PyNone = Inl ValueError
   \<and> Classifier_element_of label_classifier (Scalars [PyNone, PyStr ''a'']) = Inl TypeError"
  by (simp add: Classifier_eq_def Classifier_element_of_def label_classifier_def py_in_def
        py3_sortable_def is_Number_def)

text \<open>
  Claim C4, as the source has it.  \<open>__ne__\<close> raises the type-mismatch error exactly
  when the kind of the scalar (number or not) disagrees with the dtype (int64 or not),
  which is the check \<open>eq\<close> makes once its missing-value guard has passed.  On an int64
  classifier and a number \<open>other\<close>, the Filter is true at exactly the cells whose value
  differs from \<open>int(other)\<close> and from the missing value.  On a classifier of another
  dtype and a scalar that is not a number, the Filter is true at exactly the cells whose
  label differs from \<open>other\<close> and from the missing value.
\<close>

theorem Classifier_ne_spec:
  "(Classifier_ne c other = Inl InvalidClassifierComparison
      \<longleftrightarrow> is_Number other \<noteq> (dtype c = int64_dtype))
   \<and> (Classifier_eq c other = Inl InvalidClassifierComparison
      \<longleftrightarrow> \<not> py_eq other (missing_value c) \<and> is_Number other \<noteq> (dtype c = int64_dtype))
   \<and> (dtype c = int64_dtype \<and> number_of other = Some r \<longrightarrow>
        (\<exists>f. Classifier_ne c other = Inr f \<and>
           (\<forall>x. eval_filter f (PyInt x)
                 = (x \<noteq> py_int r \<and> \<not> py_eq (PyInt x) (missing_value c)))))
   \<and> (dtype c \<noteq> int64_dtype \<and> number_of other = None \<longrightarrow>
        (\<exists>f. Classifier_ne c other = Inr f \<and>
           (\<forall>x. eval_filter f x
                 = (\<not> py_eq x other \<and> \<not> py_eq x (missing_value c)))))"
  by (auto simp: Classifier_ne_def Classifier_eq_def is_Number_def split: option.splits)

theorem Classifier_ne_spec_witness:
  "dtype int_classifier = int64_dtype \<and> number_of (PyInt 2) = Some 2
   \<and> dtype str_classifier \<noteq> int64_dtype \<and> number_of (PyStr ''ab'') = None
   \<and> (\<exists>f. Classifier_ne int_classifier (PyInt 2) = Inr f
          \<and> eval_filter f (PyInt 5) \<and> \<not> eval_filter f (PyInt 2) \<and> \<not> eval_filter f (PyInt (- 1)))
   \<and> (\<exists>g. Classifier_ne str_classifier (PyStr ''ab'') = Inr g
          \<and> eval_filter g (PyStr ''z'') \<and> \<not> eval_filter g (PyStr ''ab'')
          \<and> \<not> eval_filter g (PyStr []))
   \<and> Classifier_ne int_classifier (PyStr ''ab'') = Inl InvalidClassifierComparison"
  using Classifier_ne_spec [of int_classifier "PyInt 2" 2]
        Classifier_ne_spec [of str_classifier "PyStr ''ab''" 0]
        Classifier_ne_spec [of int_classifier "PyStr ''ab''" 0]
  by (simp add: Classifier_ne_def int_classifier_def str_classifier_def is_Number_def
        py_int_def)

text \<open>
  Claim C4 as worded fails for a number that is not an integer.  \<open>1.5\<close> passes the kind
  check of an int64 classifier; the source compares the cells with \<open>int(1.5) = 1\<close>, so
  the Filter is false at a cell holding 1, a value that differs from 1.5 and from the
  missing value -1.
\<close>

theorem Classifier_ne_counterexample:
  "is_Number (PyFloat (3 / 2)) = (dtype int_classifier = int64_dtype)
   \<and> Classifier_ne int_classifier (PyFloat (3 / 2))
       = Inr (NumExprFilter (NAnd (NNe X0 (Lit (PyInt 1))) (NNe X0 (Lit (PyInt (- 1)))))
                int_classifier)
   \<and> \<not> eval_filter (NumExprFilter (NAnd (NNe X0 (Lit (PyInt 1))) (NNe X0 (Lit (PyInt (- 1)))))
                int_classifier) (PyInt 1)
   \<and> \<not> py_eq (PyInt 1) (PyFloat (3 / 2))
   \<and> \<not> py_eq (PyInt 1) (missing_value int_classifier)"
  by (simp add: Classifier_ne_def is_Number_def int_classifier_def py_int_def floor_eq_iff)

section \<open>The cache of benchmark and treasury data\<close>

lemma has_data_for_dates_nonempty:
  "data \<noteq> [] \<Longrightarrow>
     has_data_for_dates (Some data) first_date last_date
       = Inr (ts_le (fst (hd data)) first_date \<and> ts_ge (fst (last data)) last_date)"
  by (cases data) simp_all

lemma load_cached_try_covered:
  assumes "from_csv f = Inr data" and "data \<noteq> []"
    and "ts_le (fst (hd data)) first_date \<and> ts_ge (fst (last data)) last_date"
  shows "load_cached_try f first_date last_date now = Inr (Some data, [])"
  using assms by (simp add: load_cached_try_def has_data_for_dates_nonempty)

lemma load_cached_try_stale:
  assumes "from_csv f = Inr data" and "data \<noteq> []"
    and "\<not> (ts_le (fst (hd data)) first_date \<and> ts_ge (fst (last data)) last_date)"
    and "last_modified_time f = Inr t"
  shows "load_cached_try f first_date last_date now =
           (if now - t \<le> ONE_HOUR
            then Inr (Some data, [Warn ''Refusing to download new data''])
            else Inr (None, []))"
proof -
  from assms(3)
  have c: "(ts_le (fst (hd data)) first_date \<and> ts_ge (fst (last data)) last_date) = False"
    by simp
  from assms(2) have "has_data_for_dates (Some data) first_date last_date = Inr False"
    unfolding c [symmetric] by (rule has_data_for_dates_nonempty)
  with assms(1,4) show ?thesis
    by (simp add: load_cached_try_def assms(2))
qed

text \<open>
  Claim C8.  For a cache file that reads as a non-empty frame: when its first entry is
  \<open>\<le> first_date\<close> and its last entry \<open>\<ge> last_date\<close>, \<open>_load_cached_data\<close> returns the
  cached data; when it does not cover the range, the stale data is still returned (with
  a warning) if the time since the file's modification is at most one hour, and
  otherwise the result is \<open>None\<close>, the cache miss that lets the caller download.
\<close>

theorem load_cached_data_policy:
  assumes "from_csv f = Inr data" and "data \<noteq> []"
  shows "(ts_le (fst (hd data)) first_date \<and> ts_ge (fst (last data)) last_date \<longrightarrow>
            load_cached_data (Some f) first_date last_date now = (Inr (Some data), []))
       \<and> (\<not> (ts_le (fst (hd data)) first_date \<and> ts_ge (fst (last data)) last_date)
            \<and> last_modified_time f = Inr t \<and> now - t \<le> ONE_HOUR \<longrightarrow>
            load_cached_data (Some f) first_date last_date now
              = (Inr (Some data), [Warn ''Refusing to download new data'']))
       \<and> (\<not> (ts_le (fst (hd data)) first_date \<and> ts_ge (fst (last data)) last_date)
            \<and> last_modified_time f = Inr t \<and> ONE_HOUR < now - t \<longrightarrow>
            fst (load_cached_data (Some f) first_date last_date now) = Inr None)"
proof (intro conjI impI)
  assume "ts_le (fst (hd data)) first_date \<and> ts_ge (fst (last data)) last_date"
  then show "load_cached_data (Some f) first_date last_date now = (Inr (Some data), [])"
    using assms by (simp add: load_cached_data_def load_cached_try_covered)
next
  assume "\<not> (ts_le (fst (hd data)) first_date \<and> ts_ge (fst (last data)) last_date)
            \<and> last_modified_time f = Inr t \<and> now - t \<le> ONE_HOUR"
  then show "load_cached_data (Some f) first_date last_date now
              = (Inr (Some data), [Warn ''Refusing to download new data''])"
    using assms load_cached_try_stale [of f data first_date last_date t now]
    by (simp add: load_cached_data_def)
next
  assume "\<not> (ts_le (fst (hd data)) first_date \<and> ts_ge (fst (last data)) last_date)
            \<and> last_modified_time f = Inr t \<and> ONE_HOUR < now - t"
  then show "fst (load_cached_data (Some f) first_date last_date now) = Inr None"
    using assms load_cached_try_stale [of f data first_date last_date t now]
    by (simp add: load_cached_data_def)
qed

theorem load_cached_data_policy_witness:
  "from_csv sample_file = Inr sample_frame \<and> sample_frame \<noteq> []
   \<and> last_modified_time sample_file = Inr (13 * day)
   \<and> load_cached_data (Some sample_file) (10 * day) (12 * day) (20 * day)
       = (Inr (Some sample_frame), [])
   \<and> load_cached_data (Some sample_file) (10 * day) (13 * day) (13 * day + ONE_HOUR)
       = (Inr (Some sample_frame), [Warn ''Refusing to download new data''])
   \<and> fst (load_cached_data (Some sample_file) (10 * day) (13 * day) (13 * day + ONE_HOUR + 1))
       = Inr None"
proof -
  have h: "from_csv sample_file = Inr sample_frame" "sample_frame \<noteq> []"
    by (simp_all add: sample_file_def sample_frame_def)
  have m: "last_modified_time sample_file = Inr (13 * day)"
    by (simp add: sample_file_def)
  have a: "ts_le (fst (hd sample_frame)) (10 * day) \<and> ts_ge (fst (last sample_frame)) (12 * day)"
    by (simp add: sample_frame_def)
  have b: "\<not> (ts_le (fst (hd sample_frame)) (10 * day) \<and> ts_ge (fst (last sample_frame)) (13 * day))"
    by (simp add: sample_frame_def day_def ONE_HOUR_def)
  have c: "13 * day + ONE_HOUR - 13 * day \<le> ONE_HOUR" by simp
  have d: "ONE_HOUR < 13 * day + ONE_HOUR + 1 - 13 * day" by simp
  from load_cached_data_policy [OF h, of "10 * day" "12 * day" "20 * day" 0] a
  have r1: "load_cached_data (Some sample_file) (10 * day) (12 * day) (20 * day)
       = (Inr (Some sample_frame), [])" by blast
  from load_cached_data_policy [OF h, of "10 * day" "13 * day" "13 * day + ONE_HOUR" "13 * day"] b m c
  have r2: "load_cached_data (Some sample_file) (10 * day) (13 * day) (13 * day + ONE_HOUR)
       = (Inr (Some sample_frame), [Warn ''Refusing to download new data''])" by blast
  from load_cached_data_policy [OF h, of "10 * day" "13 * day" "13 * day + ONE_HOUR + 1" "13 * day"] b m d
  have r3: "fst (load_cached_data (Some sample_file) (10 * day) (13 * day) (13 * day + ONE_HOUR + 1))
       = Inr None" by blast
  from h m r1 r2 r3 show ?thesis by blast
qed

lemma load_cached_data_no_file:
  "load_cached_data None first_date last_date now = (Inr None, [Info ''Cache does not have data''])"
  by (simp add: load_cached_data_def)

lemma ensure_benchmark_data_reraises:
  assumes "load_cached_data file first_date last_date now = (Inr None, logs)"
    and "download_and_cache fetch to_csv = (data, Some e)"
    and "e \<in> {OSError, IOError, HTTPError}"
  shows "ensure_benchmark_data file fetch to_csv first_date last_date now
           = (Inl e, logs @ [Info ''Downloading benchmark data'',
                             LogException ''Failed to cache the new benchmark returns''])"
  using assms by (simp add: ensure_benchmark_data_def Let_def)

lemma ensure_treasury_data_write_failure:
  assumes "load_cached_data file (max first_date earliest) last_date now = (Inr None, logs)"
    and "fetch = Inr data" and "data \<noteq> []" and "to_csv = Some e"
    and "e \<in> {OSError, IOError, HTTPError}"
  shows "fst (ensure_treasury_data file fetch to_csv earliest first_date last_date now)
           = Inr (Some data)"
  using assms
  by (simp add: ensure_treasury_data_def download_and_cache_def Let_def
        has_data_for_dates_nonempty)

lemma ensure_treasury_data_fetch_failure:
  assumes "load_cached_data file (max first_date earliest) last_date now = (Inr None, logs)"
    and "fetch = Inl e" and "e \<in> {OSError, IOError, HTTPError}"
  shows "ensure_treasury_data file fetch to_csv earliest first_date last_date now
           = (Inl AttributeError,
              logs @ [Info ''Downloading treasury data'',
                      LogException ''failed to cache treasury data''])"
  using assms
  by (simp add: ensure_treasury_data_def download_and_cache_def Let_def)

text \<open>
  Claim C7.  With no cache file and a fetch that fails with \<open>HTTPError\<close>,
  \<open>ensure_benchmark_data\<close> logs the failure and re-raises the \<open>HTTPError\<close>, as the claim
  says.  \<open>ensure_treasury_data\<close> logs the failure and swallows it, but \<open>data\<close> is still
  \<open>None\<close>, and the call \<open>has_data_for_dates(data, ...)\<close> that follows raises
  \<open>AttributeError\<close>: nothing is returned and no warning is written.
\<close>

theorem ensure_data_fetch_failure:
  "ensure_benchmark_data None (Inl HTTPError) None (10 * day) (12 * day) (13 * day)
     = (Inl HTTPError,
        [Info ''Cache does not have data'', Info ''Downloading benchmark data'',
         LogException ''Failed to cache the new benchmark returns''])
   \<and> ensure_treasury_data None (Inl HTTPError) None 0 (10 * day) (12 * day) (13 * day)
     = (Inl AttributeError,
        [Info ''Cache does not have data'', Info ''Downloading treasury data'',
         LogException ''failed to cache treasury data''])"
  by (simp add: ensure_benchmark_data_def ensure_treasury_data_def load_cached_data_def
        download_and_cache_def Let_def)

end
